theory Spec2Isabelle
  imports Main
begin

section \<open>The dev-mode app reloader (src/apx/cli/dev/reloader.py)\<close>

text \<open>
  The reloader keeps one cached application object, the name it was loaded from and a
  reload counter. Loading goes through three things it does not own: the interpreter's
  table of imported modules (\<open>sys.modules\<close>), the import machinery
  (\<open>importlib.import_module\<close>) and SQLModel's global registries. They are made
  explicit here as a \<open>world\<close> value that every operation takes and returns, and the
  import machinery is a parameter of \<open>load_app\<close>, so that each call may meet a different
  state of the source tree.
\<close>

subsection \<open>Python values\<close>

text \<open>
  An object is either an instance of \<open>FastAPI\<close> or something else; the number is its
  identity. \<open>isinstance(x, FastAPI)\<close> is \<open>is_FastAPI\<close>.
\<close>

datatype pyobj = FastAPI nat | OtherObject nat

fun is_FastAPI :: "pyobj \<Rightarrow> bool" where
  "is_FastAPI (FastAPI _) = True"
| "is_FastAPI (OtherObject _) = False"

text \<open>A module object: its identity and its attributes (name, value).\<close>

record pymodule =
  module_id :: nat
  attrs :: "(string \<times> pyobj) list"

text \<open>\<open>getattr(module, name)\<close>: the value, or \<open>None\<close> where Python raises AttributeError.\<close>

definition getattr :: "pymodule \<Rightarrow> string \<Rightarrow> pyobj option" where
  "getattr m name = map_of (attrs m) name"

text \<open>
  The exceptions \<open>load_app\<close> lets escape. The payload is the offending name rather than
  the formatted message. \<open>import_module\<close> may raise any of them.
\<close>

datatype exn =
    ValueError string
  | ImportError string
  | AttributeError string string
  | TypeError string
  | OtherException string

subsection \<open>The world outside the reloader\<close>

text \<open>
  SQLModel's global state, as far as \<open>_clear_sqlmodel_registry\<close> touches it: absent
  (the import raises ImportError), or present with the table metadata and, where the
  attributes \<open>_sa_registry._class_registry\<close> exist, the class registry.
\<close>

datatype sqlmodel =
    NotInstalled
  | Installed (metadata: "string list") (class_registry: "string list option")

text \<open>
  The calls made on the outside world are recorded in order in \<open>trace\<close>. The trace is
  an observation log added by the model (the source keeps no such list); it is what a test
  double for the registry sweep, the module table and the importer would record.
\<close>

datatype event =
    ClearSqlmodelRegistry
  | DelModules "string list"
  | ImportModule string
  | LogError

record world =
  sys_modules :: "(string \<times> pymodule) list"
  sqlmodel_state :: sqlmodel
  trace :: "event list"

text \<open>
  \<open>importlib.import_module\<close>, from the module table and the dotted path to the raised
  exception or the module, and the module table it leaves behind.
\<close>

type_synonym importer =
  "(string \<times> pymodule) list \<Rightarrow> string \<Rightarrow> (exn + pymodule) \<times> (string \<times> pymodule) list"

definition log_error :: "world \<Rightarrow> world" where
  "log_error w = w\<lparr>trace := trace w @ [LogError]\<rparr>"

text \<open>
  \<open>_clear_sqlmodel_registry\<close> (lines 17-40): nothing when SQLModel is not installed;
  otherwise the metadata is cleared, and the class registry when it is there. It never
  raises. The clearing calls themselves are taken not to fail, and SQLModel, when
  installed, to be imported already, so that \<open>sys.modules\<close> is not touched.
\<close>

definition clear_sqlmodel_registry :: "world \<Rightarrow> world" where
  "clear_sqlmodel_registry w =
     w\<lparr>sqlmodel_state :=
         (case sqlmodel_state w of
            NotInstalled \<Rightarrow> NotInstalled
          | Installed md reg \<Rightarrow> Installed [] (map_option (\<lambda>_. []) reg)),
       trace := trace w @ [ClearSqlmodelRegistry]\<rparr>"

subsection \<open>Strings\<close>

text \<open>\<open>name.startswith(p)\<close>.\<close>

definition startswith :: "string \<Rightarrow> string \<Rightarrow> bool" where
  "startswith name p = (take (length p) name = p)"

text \<open>
  \<open>s.split(":", 1)\<close> for a string that contains the separator: the part before the first
  separator and the part after it. \<open>s.split(".")[0]\<close>: the part before the first dot,
  the whole string when there is none.
\<close>

definition split_target :: "string \<Rightarrow> string \<times> string" where
  "split_target s =
     (takeWhile (\<lambda>c. c \<noteq> CHR '':'') s, tl (dropWhile (\<lambda>c. c \<noteq> CHR '':'') s))"

definition base_path_of :: "string \<Rightarrow> string" where
  "base_path_of module_path = takeWhile (\<lambda>c. c \<noteq> CHR ''.'') module_path"

subsection \<open>Clearing the module cache (lines 93-100)\<close>

definition modules_to_delete :: "string \<Rightarrow> (string \<times> pymodule) list \<Rightarrow> string list" where
  "modules_to_delete base_path mods =
     filter (\<lambda>name. startswith name (base_path @ ''.'') \<or> name = base_path) (map fst mods)"

text \<open>\<open>del sys.modules[mod_name]\<close>, for a key that is present.\<close>

definition del_module :: "string \<Rightarrow> (string \<times> pymodule) list \<Rightarrow> (string \<times> pymodule) list" where
  "del_module mod_name mods = filter (\<lambda>(k, m). k \<noteq> mod_name) mods"

definition clear_module_cache :: "string \<Rightarrow> world \<Rightarrow> world" where
  "clear_module_cache base_path w =
     (let dels = modules_to_delete base_path (sys_modules w)
      in w\<lparr>sys_modules := foldl (\<lambda>mods mod_name. del_module mod_name mods) (sys_modules w) dels,
           trace := trace w @ [DelModules dels]\<rparr>)"

subsection \<open>The reloader\<close>

record reloader =
  app_instance :: "pyobj option"
  app_module_name :: "string option"
  reload_count :: int

definition AppReloader_init :: reloader where
  "AppReloader_init = \<lparr>app_instance = None, app_module_name = None, reload_count = 0\<rparr>"

text \<open>The cached answer of lines 71-76, when there is one.\<close>

definition cached_app :: "reloader \<Rightarrow> string \<Rightarrow> bool \<Rightarrow> (pyobj \<times> int) option" where
  "cached_app s name reload =
     (case app_instance s of
        None \<Rightarrow> None
      | Some app \<Rightarrow>
          if \<not> reload \<and> app_module_name s = Some name then Some (app, reload_count s)
          else None)"

text \<open>The world after the call of \<open>import_module\<close> at line 105 has returned or raised.\<close>

definition after_import :: "world \<Rightarrow> (string \<times> pymodule) list \<Rightarrow> string \<Rightarrow> world" where
  "after_import w mods module_path =
     w\<lparr>sys_modules := mods, trace := trace w @ [ImportModule module_path]\<rparr>"

text \<open>Lines 103-131: import, attribute lookup, type check, caching.\<close>

definition import_and_cache ::
  "importer \<Rightarrow> reloader \<Rightarrow> world \<Rightarrow> string \<Rightarrow> string \<Rightarrow> string
     \<Rightarrow> (exn + pyobj \<times> int) \<times> reloader \<times> world" where
  "import_and_cache imp s w name module_path attribute_name =
     (case imp (sys_modules w) module_path of
        (Inl e, mods) \<Rightarrow> (Inl e, s, log_error (after_import w mods module_path))
      | (Inr m, mods) \<Rightarrow>
          (case getattr m attribute_name of
             None \<Rightarrow>
               (Inl (AttributeError module_path attribute_name), s,
                log_error (after_import w mods module_path))
           | Some app \<Rightarrow>
               if \<not> is_FastAPI app
               then (Inl (TypeError attribute_name), s,
                     log_error (after_import w mods module_path))
               else (Inr (app, reload_count s),
                     s\<lparr>app_instance := Some app, app_module_name := Some name\<rparr>,
                     after_import w mods module_path)))"

text \<open>Lines 88-101: what is done before the import when reloading.\<close>

definition prepare_reload :: "reloader \<Rightarrow> world \<Rightarrow> string \<Rightarrow> bool \<Rightarrow> reloader \<times> world" where
  "prepare_reload s w module_path reload =
     (if reload \<or> app_instance s \<noteq> None
      then (s\<lparr>reload_count := reload_count s + 1\<rparr>,
            clear_module_cache (base_path_of module_path) (clear_sqlmodel_registry w))
      else (s, w))"

fun load_app ::
  "importer \<Rightarrow> reloader \<times> world \<Rightarrow> string \<Rightarrow> bool
     \<Rightarrow> (exn + pyobj \<times> int) \<times> reloader \<times> world" where
  "load_app imp (s, w) name reload =
     (case cached_app s name reload of
        Some hit \<Rightarrow> (Inr hit, s, w)
      | None \<Rightarrow>
          if CHR '':'' \<notin> set name then (Inl (ValueError name), s, log_error w)
          else
            (let module_path = fst (split_target name);
                 attribute_name = snd (split_target name);
                 prepared = prepare_reload s w module_path reload
             in import_and_cache imp (fst prepared) (snd prepared)
                  name module_path attribute_name))"

definition get_app :: "reloader \<Rightarrow> pyobj option" where
  "get_app s = app_instance s"

definition get_reload_count :: "reloader \<Rightarrow> int" where
  "get_reload_count s = reload_count s"

definition clear :: "reloader \<Rightarrow> reloader" where
  "clear s = s\<lparr>app_instance := None, app_module_name := None\<rparr>"

text \<open>
  The module-level functions \<open>load_app\<close>, \<open>get_app\<close>, \<open>get_reload_count\<close> and
  \<open>clear_app\<close> (lines 156-199) call these methods on the one global reloader
  \<open>_dev_reloader\<close>, which starts as \<open>AppReloader_init\<close>.
\<close>

subsection \<open>Sequences of calls\<close>

text \<open>
  What a client can do with the reloader, and what else happens in the process between
  two calls (\<open>Outside\<close>: any change to the world that does not go through the
  reloader).
\<close>

datatype op =
    LoadApp importer string bool
  | GetApp
  | GetReloadCount
  | Clear
  | Outside "world \<Rightarrow> world"

fun step :: "reloader \<times> world \<Rightarrow> op \<Rightarrow> reloader \<times> world" where
  "step sw (LoadApp imp name reload) = snd (load_app imp sw name reload)"
| "step sw GetApp = sw"
| "step sw GetReloadCount = sw"
| "step sw Clear = (clear (fst sw), snd sw)"
| "step sw (Outside f) = (fst sw, f (snd sw))"

definition run :: "op list \<Rightarrow> reloader \<times> world \<Rightarrow> reloader \<times> world" where
  "run ops sw = foldl step sw ops"

text \<open>The dotted paths handed to the importer, in order, as the trace records them.\<close>

fun import_paths :: "event list \<Rightarrow> string list" where
  "import_paths [] = []"
| "import_paths (ImportModule p # es) = p # import_paths es"
| "import_paths (e # es) = import_paths es"

subsection \<open>A small source tree for concrete runs\<close>

text \<open>
  A package \<open>pkg\<close> whose module \<open>pkg.app\<close> defines the FastAPI instances
  \<open>service\<close> and \<open>admin\<close> and a plain object \<open>helper\<close>. \<open>demo_importer\<close> behaves as
  the import machinery does on that tree: a module already in the table is returned as it is, \<open>pkg.app\<close> is imported
  together with its parent package, the empty name is a ValueError and any other name an
  ImportError. \<open>failing_importer\<close> is a tree in which nothing imports.
\<close>

definition pkg_module :: pymodule where
  "pkg_module = \<lparr>module_id = 10, attrs = []\<rparr>"

definition demo_module :: pymodule where
  "demo_module =
     \<lparr>module_id = 11,
      attrs = [(''service'', FastAPI 1), (''helper'', OtherObject 2), (''admin'', FastAPI 3)]\<rparr>"

definition demo_importer :: importer where
  "demo_importer mods path =
     (case map_of mods path of
        Some m \<Rightarrow> (Inr m, mods)
      | None \<Rightarrow>
          if path = ''pkg.app''
          then (Inr demo_module, mods @ [(''pkg'', pkg_module), (''pkg.app'', demo_module)])
          else if path = [] then (Inl (ValueError ''Empty module name''), mods)
          else (Inl (ImportError path), mods))"

definition failing_importer :: importer where
  "failing_importer mods path = (Inl (ImportError path), mods)"

definition demo_world :: world where
  "demo_world =
     \<lparr>sys_modules =
        [(''os'', \<lparr>module_id = 1, attrs = []\<rparr>), (''pkgfoo'', \<lparr>module_id = 2, attrs = []\<rparr>)],
      sqlmodel_state = Installed [''hero''] (Some [''Hero'']),
      trace = []\<rparr>"

text \<open>The reloader and the world after \<open>pkg.app:service\<close> has been loaded once.\<close>

definition loaded_reloader :: reloader where
  "loaded_reloader =
     \<lparr>app_instance = Some (FastAPI 1), app_module_name = Some ''pkg.app:service'',
      reload_count = 0\<rparr>"

definition loaded_world :: world where
  "loaded_world =
     \<lparr>sys_modules =
        [(''os'', \<lparr>module_id = 1, attrs = []\<rparr>), (''pkgfoo'', \<lparr>module_id = 2, attrs = []\<rparr>),
         (''pkg'', pkg_module), (''pkg.app'', demo_module)],
      sqlmodel_state = Installed [''hero''] (Some [''Hero'']),
      trace = [ImportModule ''pkg.app'']\<rparr>"


section \<open>Basic facts\<close>

lemma startswith_iff: "startswith name p \<longleftrightarrow> (\<exists>rest. name = p @ rest)"
  unfolding startswith_def
  by (metis append_eq_conv_conj append_take_drop_id)

lemma del_modules_foldl:
  "foldl (\<lambda>mods mod_name. del_module mod_name mods) mods dels
     = filter (\<lambda>(k, m). k \<notin> set dels) mods"
  by (induction dels arbitrary: mods) (auto simp: del_module_def intro: filter_cong)

lemma sys_modules_clear_module_cache:
  "sys_modules (clear_module_cache b w)
     = filter (\<lambda>(n, m). \<not> (n = b \<or> (\<exists>rest. n = b @ ''.'' @ rest))) (sys_modules w)"
  unfolding clear_module_cache_def Let_def
  apply (simp add: del_modules_foldl modules_to_delete_def startswith_iff)
  apply (rule filter_cong)
   apply force+
  done

lemma cached_app_Some_iff:
  "cached_app s name reload = Some hit \<longleftrightarrow>
     \<not> reload \<and> app_module_name s = Some name \<and>
     (\<exists>app. app_instance s = Some app \<and> hit = (app, reload_count s))"
  by (auto simp: cached_app_def split: option.splits)

lemma cached_app_None_iff:
  "cached_app s name reload = None \<longleftrightarrow>
     reload \<or> app_instance s = None \<or> app_module_name s \<noteq> Some name"
  by (auto simp: cached_app_def split: option.splits)

lemma import_and_cache_count:
  "reload_count (fst (snd (import_and_cache imp s w name mp an))) = reload_count s"
  by (simp add: import_and_cache_def split: prod.splits sum.splits option.splits)

lemma import_and_cache_trace:
  "trace (snd (snd (import_and_cache imp s w name mp an)))
     = trace w @ [ImportModule mp]
         @ (if isl (fst (import_and_cache imp s w name mp an)) then [LogError] else [])"
  by (simp add: import_and_cache_def after_import_def log_error_def
           split: prod.splits sum.splits option.splits)

lemma import_and_cache_Inl:
  "fst (import_and_cache imp s w name mp an) = Inl e \<Longrightarrow>
     fst (snd (import_and_cache imp s w name mp an)) = s"
  by (simp add: import_and_cache_def split: prod.splits sum.splits option.splits if_splits)

lemma import_and_cache_Inr:
  "fst (import_and_cache imp s w name mp an) = Inr (app, g) \<Longrightarrow>
     g = reload_count s \<and> is_FastAPI app \<and>
     fst (snd (import_and_cache imp s w name mp an))
       = s\<lparr>app_instance := Some app, app_module_name := Some name\<rparr>"
  by (auto simp: import_and_cache_def split: prod.splits sum.splits option.splits if_splits)

lemma load_app_hit:
  "cached_app s name reload = Some hit \<Longrightarrow> load_app imp (s, w) name reload = (Inr hit, s, w)"
  by simp

lemma load_app_malformed:
  "cached_app s name reload = None \<Longrightarrow> CHR '':'' \<notin> set name \<Longrightarrow>
     load_app imp (s, w) name reload = (Inl (ValueError name), s, log_error w)"
  by simp

lemma load_app_reload:
  "cached_app s name reload = None \<Longrightarrow> CHR '':'' \<in> set name \<Longrightarrow>
   reload \<or> app_instance s \<noteq> None \<Longrightarrow>
     load_app imp (s, w) name reload
       = import_and_cache imp (s\<lparr>reload_count := reload_count s + 1\<rparr>)
           (clear_module_cache (base_path_of (fst (split_target name)))
              (clear_sqlmodel_registry w))
           name (fst (split_target name)) (snd (split_target name))"
  by (simp add: prepare_reload_def Let_def)

lemma load_app_first:
  "cached_app s name reload = None \<Longrightarrow> CHR '':'' \<in> set name \<Longrightarrow>
   \<not> reload \<Longrightarrow> app_instance s = None \<Longrightarrow>
     load_app imp (s, w) name reload
       = import_and_cache imp s w name (fst (split_target name)) (snd (split_target name))"
  by (simp add: prepare_reload_def Let_def)

lemma load_app_count:
  "reload_count (fst (snd (load_app imp (s, w) name reload)))
     = reload_count s +
         (if cached_app s name reload = None \<and> CHR '':'' \<in> set name
             \<and> (reload \<or> app_instance s \<noteq> None) then 1 else 0)"
  by (simp add: prepare_reload_def Let_def import_and_cache_count split: option.splits)

lemmas demo_defs = cached_app_def AppReloader_init_def demo_world_def split_target_def
      prepare_reload_def import_and_cache_def demo_importer_def getattr_def demo_module_def
      loaded_reloader_def loaded_world_def pkg_module_def after_import_def log_error_def
      clear_module_cache_def clear_sqlmodel_registry_def modules_to_delete_def del_module_def
      startswith_def base_path_of_def failing_importer_def Let_def load_app.simps

lemma import_paths_append: "import_paths (xs @ ys) = import_paths xs @ import_paths ys"
  by (induction xs rule: import_paths.induct) simp_all

lemma trace_prepare_reload:
  "trace (snd (prepare_reload s w mp reload))
     = trace w @ (if reload \<or> app_instance s \<noteq> None
                  then [ClearSqlmodelRegistry,
                        DelModules (modules_to_delete (base_path_of mp) (sys_modules w))]
                  else [])"
  by (simp add: prepare_reload_def clear_module_cache_def clear_sqlmodel_registry_def Let_def)

lemma load_app_slow:
  "cached_app s name reload = None \<Longrightarrow> CHR '':'' \<in> set name \<Longrightarrow>
     load_app imp (s, w) name reload
       = import_and_cache imp (fst (prepare_reload s w (fst (split_target name)) reload))
           (snd (prepare_reload s w (fst (split_target name)) reload))
           name (fst (split_target name)) (snd (split_target name))"
  by (simp add: Let_def)

lemma load_app_trace:
  assumes "cached_app s name reload = None" and "CHR '':'' \<in> set name"
  shows "trace (snd (snd (load_app imp (s, w) name reload)))
     = trace w
       @ (if reload \<or> app_instance s \<noteq> None
          then [ClearSqlmodelRegistry,
                DelModules (modules_to_delete (base_path_of (fst (split_target name)))
                              (sys_modules w))]
          else [])
       @ [ImportModule (fst (split_target name))]
       @ (if isl (fst (load_app imp (s, w) name reload)) then [LogError] else [])"
  unfolding load_app_slow [OF assms] import_and_cache_trace trace_prepare_reload
  by simp

lemma load_app_Inr_state:
  assumes "load_app imp (s, w) name reload = (Inr (app, g), s', w')"
  shows "app_instance s' = Some app \<and> app_module_name s' = Some name \<and> reload_count s' = g"
proof (cases "cached_app s name reload")
  case (Some hit)
  with assms show ?thesis by (auto simp: cached_app_Some_iff)
next
  case None
  with assms have colon: "CHR '':'' \<in> set name" by (auto split: if_splits)
  let ?p = "prepare_reload s w (fst (split_target name)) reload"
  let ?r = "import_and_cache imp (fst ?p) (snd ?p) name (fst (split_target name)) (snd (split_target name))"
  from assms have eq: "?r = (Inr (app, g), s', w')"
    using load_app_slow [OF None colon] by simp
  then have "fst ?r = Inr (app, g)" by simp
  from import_and_cache_Inr [OF this] eq show ?thesis by simp
qed

lemma first_load:
  "load_app demo_importer (AppReloader_init, demo_world) ''pkg.app:service'' False
     = (Inr (FastAPI 1, 0), loaded_reloader, loaded_world)"
  by (simp add: demo_defs)

lemma failed_reload:
  "load_app failing_importer (loaded_reloader, loaded_world) ''pkg.app:service'' True
     = (Inl (ImportError ''pkg.app''), loaded_reloader\<lparr>reload_count := 1\<rparr>,
        \<lparr>sys_modules =
           [(''os'', \<lparr>module_id = 1, attrs = []\<rparr>), (''pkgfoo'', \<lparr>module_id = 2, attrs = []\<rparr>)],
         sqlmodel_state = Installed [] (Some []),
         trace = [ImportModule ''pkg.app'', ClearSqlmodelRegistry,
                  DelModules [''pkg'', ''pkg.app''], ImportModule ''pkg.app'', LogError]\<rparr>)"
  by (simp add: demo_defs)

lemma step_count_mono: "reload_count (fst sw) \<le> reload_count (fst (step sw x))"
proof (cases x)
  case (LoadApp imp name reload)
  obtain s w where sw: "sw = (s, w)" by (cases sw)
  show ?thesis unfolding LoadApp sw step.simps fst_conv load_app_count by simp
qed (simp_all add: clear_def)

lemma run_count_mono: "reload_count (fst sw) \<le> reload_count (fst (run ops sw))"
  unfolding run_def
proof (induction ops arbitrary: sw)
  case Nil
  show ?case by simp
next
  case (Cons x xs)
  have "reload_count (fst sw) \<le> reload_count (fst (step sw x))" by (rule step_count_mono)
  also have "\<dots> \<le> reload_count (fst (foldl step (step sw x) xs))" by (rule Cons.IH)
  finally show ?case by simp
qed

lemma load_app_name_colon:
  assumes "\<forall>n. app_module_name s = Some n \<longrightarrow> CHR '':'' \<in> set n"
  shows "\<forall>n. app_module_name (fst (snd (load_app imp (s, w) name reload))) = Some n
           \<longrightarrow> CHR '':'' \<in> set n"
proof (cases "cached_app s name reload")
  case (Some hit)
  with assms show ?thesis by simp
next
  case None
  show ?thesis
  proof (cases "CHR '':'' \<in> set name")
    case False
    with None assms show ?thesis by simp
  next
    case True
    let ?p = "prepare_reload s w (fst (split_target name)) reload"
    have p: "app_module_name (fst ?p) = app_module_name s"
      by (simp add: prepare_reload_def)
    have "app_module_name (fst (snd (import_and_cache imp (fst ?p) (snd ?p) name
          (fst (split_target name)) (snd (split_target name))))) = Some n
        \<Longrightarrow> n = name \<or> app_module_name (fst ?p) = Some n" for n
      by (auto simp: import_and_cache_def split: prod.splits sum.splits option.splits if_splits)
    with True p assms show ?thesis
      unfolding load_app_slow [OF None True] by auto
  qed
qed

lemma step_name_colon:
  assumes "\<forall>n. app_module_name (fst sw) = Some n \<longrightarrow> CHR '':'' \<in> set n"
  shows "\<forall>n. app_module_name (fst (step sw x)) = Some n \<longrightarrow> CHR '':'' \<in> set n"
proof (cases x)
  case (LoadApp imp name reload)
  obtain s w where sw: "sw = (s, w)" by (cases sw)
  from assms show ?thesis unfolding LoadApp sw step.simps fst_conv
    by (rule load_app_name_colon)
qed (use assms in \<open>simp_all add: clear_def\<close>)

lemma run_name_colon:
  assumes "\<forall>n. app_module_name (fst sw) = Some n \<longrightarrow> CHR '':'' \<in> set n"
  shows "\<forall>n. app_module_name (fst (run ops sw)) = Some n \<longrightarrow> CHR '':'' \<in> set n"
  using assms unfolding run_def
proof (induction ops arbitrary: sw)
  case Nil
  then show ?case by simp
next
  case (Cons x xs)
  from Cons.IH [OF step_name_colon [OF Cons.prems]] show ?case by simp
qed

lemma reachable_name_colon:
  "app_module_name (fst (run ops (AppReloader_init, w0))) = Some n \<Longrightarrow> CHR '':'' \<in> set n"
  using run_name_colon [of "(AppReloader_init, w0)" ops] by (simp add: AppReloader_init_def)

text \<open>From here on \<open>load_app\<close> is unfolded only where a proof asks for it.\<close>

declare load_app.simps [simp del]

section \<open>The claims\<close>

text \<open>
  C6. In every reloader state, \<open>clear\<close> empties the cached instance and the cached
  name, so that \<open>get_app\<close> afterwards returns nothing; it leaves the reload counter as it
  was; and clearing twice gives the same state as clearing once.
\<close>
theorem clear_empties_cache_keeps_count:
  "get_app (clear s) = None \<and> app_module_name (clear s) = None \<and>
   get_reload_count (clear s) = get_reload_count s \<and> clear (clear s) = clear s"
  by (simp add: clear_def get_app_def get_reload_count_def)










text \<open>
  C4. After a successful \<open>load_app\<close> of a name without forcing a reload, the same call
  again returns the same instance and the same reload count and leaves the reloader and the
  world exactly as they were, whatever the importer would now do: nothing is swept, deleted,
  imported or logged. Over the two calls the importer is called once when the first call was
  not itself answered from the cache, and not at all when it was.
\<close>
theorem repeated_load_is_cache_hit:
  assumes "load_app imp1 (s, w) name False = (Inr (app, g), s', w')"
  shows "load_app imp2 (s', w') name False = (Inr (app, g), s', w')
     \<and> get_app s' = Some app \<and> get_reload_count s' = g
     \<and> import_paths (trace w')
         = import_paths (trace w)
           @ (if cached_app s name False = None then [fst (split_target name)] else [])"
proof -
  from load_app_Inr_state [OF assms]
  have st: "app_instance s' = Some app" "app_module_name s' = Some name" "reload_count s' = g"
    by simp_all
  then have hit: "cached_app s' name False = Some (app, g)"
    by (simp add: cached_app_def)
  have second: "load_app imp2 (s', w') name False = (Inr (app, g), s', w')"
    by (rule load_app_hit [OF hit])
  have paths: "import_paths (trace w')
         = import_paths (trace w)
           @ (if cached_app s name False = None then [fst (split_target name)] else [])"
  proof (cases "cached_app s name False")
    case (Some h)
    with assms show ?thesis by (simp add: load_app.simps)
  next
    case None
    with assms have colon: "CHR '':'' \<in> set name"
      by (auto simp: load_app.simps split: if_splits)
    from assms have "trace w' = trace (snd (snd (load_app imp1 (s, w) name False)))"
      and "\<not> isl (fst (load_app imp1 (s, w) name False))"
      by simp_all
    then show ?thesis
      unfolding load_app_trace [OF None colon] using None
      by (simp add: import_paths_append)
  qed
  from second st paths show ?thesis by (simp add: get_app_def get_reload_count_def)
qed

theorem repeated_load_is_cache_hit_witness:
  "load_app demo_importer (AppReloader_init, demo_world) ''pkg.app:service'' False
     = (Inr (FastAPI 1, 0), loaded_reloader, loaded_world)
   \<and> load_app failing_importer (loaded_reloader, loaded_world) ''pkg.app:service'' False
     = (Inr (FastAPI 1, 0), loaded_reloader, loaded_world)
   \<and> import_paths (trace loaded_world) = [''pkg.app'']"
  using repeated_load_is_cache_hit [OF first_load, of failing_importer] first_load
  by (simp add: demo_world_def AppReloader_init_def cached_app_def split_target_def
       )

text \<open>
  C5. After a successful \<open>load_app\<close> of one name, \<open>load_app\<close> of a different name that
  has a separator, without forcing a reload, is not answered from the cache: the registry is
  swept, the module cache cleared, the reload counter becomes the previous count plus one,
  the importer is called for the module path of the second name, and a successful second
  call returns that new count.
\<close>
theorem different_target_reloads:
  assumes "load_app imp1 (s, w) name1 False = (Inr (app, g), s1, w1)"
    and "CHR '':'' \<in> set name2" and "name1 \<noteq> name2"
  shows "load_app imp2 (s1, w1) name2 False
       = import_and_cache imp2 (s1\<lparr>reload_count := g + 1\<rparr>)
           (clear_module_cache (base_path_of (fst (split_target name2)))
              (clear_sqlmodel_registry w1))
           name2 (fst (split_target name2)) (snd (split_target name2))
     \<and> get_reload_count (fst (snd (load_app imp2 (s1, w1) name2 False))) = g + 1
     \<and> import_paths (trace (snd (snd (load_app imp2 (s1, w1) name2 False))))
         = import_paths (trace w1) @ [fst (split_target name2)]
     \<and> (\<forall>app' g'. fst (load_app imp2 (s1, w1) name2 False) = Inr (app', g') \<longrightarrow> g' = g + 1)"
proof -
  from load_app_Inr_state [OF assms(1)]
  have st: "app_instance s1 = Some app" "app_module_name s1 = Some name1" "reload_count s1 = g"
    by simp_all
  with assms(3) have miss: "cached_app s1 name2 False = None"
    by (simp add: cached_app_None_iff)
  from st have cached: "False \<or> app_instance s1 \<noteq> None" by simp
  let ?r = "load_app imp2 (s1, w1) name2 False"
  have eq: "?r = import_and_cache imp2 (s1\<lparr>reload_count := g + 1\<rparr>)
           (clear_module_cache (base_path_of (fst (split_target name2)))
              (clear_sqlmodel_registry w1))
           name2 (fst (split_target name2)) (snd (split_target name2))"
    using load_app_reload [OF miss assms(2) cached] st by simp
  have cnt: "reload_count (fst (snd ?r)) = g + 1"
    unfolding load_app_count using miss assms(2) st by simp
  have paths: "import_paths (trace (snd (snd ?r)))
         = import_paths (trace w1) @ [fst (split_target name2)]"
    unfolding load_app_trace [OF miss assms(2)] using st
    by (simp add: import_paths_append)
  have ret: "g' = g + 1" if "fst ?r = Inr (app', g')" for app' g'
    using import_and_cache_Inr [of imp2 _ _ name2 _ _ app' g'] that unfolding eq by fastforce
  from eq cnt paths ret show ?thesis by (simp add: get_reload_count_def)
qed

theorem different_target_reloads_witness:
  "load_app demo_importer (loaded_reloader, loaded_world) ''pkg.app:admin'' False
     = (Inr (FastAPI 3, 1),
        \<lparr>app_instance = Some (FastAPI 3), app_module_name = Some ''pkg.app:admin'',
         reload_count = 1\<rparr>,
        \<lparr>sys_modules =
           [(''os'', \<lparr>module_id = 1, attrs = []\<rparr>), (''pkgfoo'', \<lparr>module_id = 2, attrs = []\<rparr>),
            (''pkg'', pkg_module), (''pkg.app'', demo_module)],
         sqlmodel_state = Installed [] (Some []),
         trace = [ImportModule ''pkg.app'', ClearSqlmodelRegistry,
                  DelModules [''pkg'', ''pkg.app''], ImportModule ''pkg.app'']\<rparr>)"
proof -
  have h2: "CHR '':'' \<in> set ''pkg.app:admin''" by simp
  have h3: "''pkg.app:service'' \<noteq> ''pkg.app:admin''" by simp
  from different_target_reloads [OF first_load h2 h3, of demo_importer]
  have "load_app demo_importer (loaded_reloader, loaded_world) ''pkg.app:admin'' False
       = import_and_cache demo_importer (loaded_reloader\<lparr>reload_count := 0 + 1\<rparr>)
           (clear_module_cache (base_path_of (fst (split_target ''pkg.app:admin'')))
              (clear_sqlmodel_registry loaded_world))
           ''pkg.app:admin'' (fst (split_target ''pkg.app:admin''))
           (snd (split_target ''pkg.app:admin''))"
    by blast
  then show ?thesis by (simp add: demo_defs)
qed

text \<open>
  C8. Starting from a freshly constructed reloader with the name \<open>pkg.app:service\<close>: when
  the importer resolves \<open>pkg.app\<close> to a module whose attribute \<open>service\<close> is a FastAPI
  instance, the first \<open>load_app\<close> calls the importer for \<open>pkg.app\<close>, reads \<open>service\<close>,
  caches it and returns it with reload count 0; a following call with \<open>reload\<close> true sweeps
  the registry, clears the modules of \<open>pkg\<close>, calls the importer for \<open>pkg.app\<close> again
  and returns reload count 1.
\<close>
theorem pkg_app_service_scenario:
  assumes "imp1 (sys_modules w) ''pkg.app'' = (Inr m1, mods1)"
    and "getattr m1 ''service'' = Some app1" and "is_FastAPI app1"
    and "imp2 (filter (\<lambda>(n, m). \<not> (n = ''pkg'' \<or> (\<exists>rest. n = ''pkg.'' @ rest))) mods1)
           ''pkg.app'' = (Inr m2, mods2)"
    and "getattr m2 ''service'' = Some app2" and "is_FastAPI app2"
  shows "load_app imp1 (AppReloader_init, w) ''pkg.app:service'' False
       = (Inr (app1, 0),
          \<lparr>app_instance = Some app1, app_module_name = Some ''pkg.app:service'',
           reload_count = 0\<rparr>,
          w\<lparr>sys_modules := mods1, trace := trace w @ [ImportModule ''pkg.app'']\<rparr>)
     \<and> load_app imp2
         (\<lparr>app_instance = Some app1, app_module_name = Some ''pkg.app:service'',
           reload_count = 0\<rparr>,
          w\<lparr>sys_modules := mods1, trace := trace w @ [ImportModule ''pkg.app'']\<rparr>)
         ''pkg.app:service'' True
       = (Inr (app2, 1),
          \<lparr>app_instance = Some app2, app_module_name = Some ''pkg.app:service'',
           reload_count = 1\<rparr>,
          w\<lparr>sys_modules := mods2,
            sqlmodel_state := sqlmodel_state (clear_sqlmodel_registry w),
            trace := trace w @ [ImportModule ''pkg.app'', ClearSqlmodelRegistry,
                       DelModules (modules_to_delete ''pkg'' mods1), ImportModule ''pkg.app'']\<rparr>)"
proof -
  have split: "split_target ''pkg.app:service'' = (''pkg.app'', ''service'')"
    by (simp add: split_target_def)
  have base: "base_path_of ''pkg.app'' = ''pkg''"
    by (simp add: base_path_of_def)
  have first: "load_app imp1 (AppReloader_init, w) ''pkg.app:service'' False
       = (Inr (app1, 0),
          \<lparr>app_instance = Some app1, app_module_name = Some ''pkg.app:service'',
           reload_count = 0\<rparr>,
          w\<lparr>sys_modules := mods1, trace := trace w @ [ImportModule ''pkg.app'']\<rparr>)"
    using assms(1-3)
    by (simp add: load_app.simps cached_app_def AppReloader_init_def split
          prepare_reload_def import_and_cache_def after_import_def)
  let ?s1 = "\<lparr>app_instance = Some app1, app_module_name = Some ''pkg.app:service'',
           reload_count = 0\<rparr>"
  let ?w1 = "w\<lparr>sys_modules := mods1, trace := trace w @ [ImportModule ''pkg.app'']\<rparr>"
  let ?w2 = "clear_module_cache ''pkg'' (clear_sqlmodel_registry ?w1)"
  have mods: "sys_modules ?w2
      = filter (\<lambda>(n, m). \<not> (n = ''pkg'' \<or> (\<exists>rest. n = ''pkg.'' @ rest))) mods1"
    by (simp add: sys_modules_clear_module_cache clear_sqlmodel_registry_def)
  have w2: "?w2 = w\<lparr>sys_modules := sys_modules ?w2,
            sqlmodel_state := sqlmodel_state (clear_sqlmodel_registry w),
            trace := trace w @ [ImportModule ''pkg.app'', ClearSqlmodelRegistry,
                       DelModules (modules_to_delete ''pkg'' mods1)]\<rparr>"
    by (simp add: clear_module_cache_def clear_sqlmodel_registry_def Let_def)
  have miss: "cached_app ?s1 ''pkg.app:service'' True = None"
    by (simp add: cached_app_def)
  have "load_app imp2 (?s1, ?w1) ''pkg.app:service'' True
      = import_and_cache imp2 (?s1\<lparr>reload_count := reload_count ?s1 + 1\<rparr>) ?w2
          ''pkg.app:service'' ''pkg.app'' ''service''"
    using load_app_reload [OF miss, of imp2 ?w1] by (simp add: split base)
  also have "\<dots> = (Inr (app2, 1),
          \<lparr>app_instance = Some app2, app_module_name = Some ''pkg.app:service'',
           reload_count = 1\<rparr>,
          after_import ?w2 mods2 ''pkg.app'')"
    using assms(4-6) by (simp add: import_and_cache_def mods)
  also have "after_import ?w2 mods2 ''pkg.app'' = w\<lparr>sys_modules := mods2,
            sqlmodel_state := sqlmodel_state (clear_sqlmodel_registry w),
            trace := trace w @ [ImportModule ''pkg.app'', ClearSqlmodelRegistry,
                       DelModules (modules_to_delete ''pkg'' mods1), ImportModule ''pkg.app'']\<rparr>"
    by (subst w2) (simp add: after_import_def)
  finally show ?thesis using first by simp
qed


theorem pkg_app_service_scenario_witness:
  "load_app demo_importer (AppReloader_init, demo_world) ''pkg.app:service'' False
     = (Inr (FastAPI 1, 0), loaded_reloader, loaded_world)
   \<and> load_app demo_importer (loaded_reloader, loaded_world) ''pkg.app:service'' True
     = (Inr (FastAPI 1, 1), loaded_reloader\<lparr>reload_count := 1\<rparr>,
        loaded_world\<lparr>sqlmodel_state := Installed [] (Some []),
          trace := [ImportModule ''pkg.app'', ClearSqlmodelRegistry,
                    DelModules [''pkg'', ''pkg.app''], ImportModule ''pkg.app'']\<rparr>)"
proof -
  have h1: "demo_importer (sys_modules demo_world) ''pkg.app''
      = (Inr demo_module, sys_modules loaded_world)"
    by (simp add: demo_importer_def demo_world_def loaded_world_def)
  have h2: "getattr demo_module ''service'' = Some (FastAPI 1)"
    by (simp add: getattr_def demo_module_def)
  have h3: "is_FastAPI (FastAPI 1)" by simp
  have h4: "demo_importer
      (filter (\<lambda>(n, m). \<not> (n = ''pkg'' \<or> (\<exists>rest. n = ''pkg.'' @ rest)))
         (sys_modules loaded_world)) ''pkg.app''
      = (Inr demo_module, sys_modules loaded_world)"
    by (simp add: demo_importer_def loaded_world_def)
  have w1: "demo_world\<lparr>sys_modules := sys_modules loaded_world,
               trace := trace demo_world @ [ImportModule ''pkg.app'']\<rparr> = loaded_world"
    by (simp add: demo_world_def loaded_world_def)
  have s1: "\<lparr>app_instance = Some (FastAPI 1), app_module_name = Some ''pkg.app:service'',
             reload_count = 0\<rparr> = loaded_reloader"
    by (simp add: loaded_reloader_def)
  have dels: "modules_to_delete ''pkg'' (sys_modules loaded_world) = [''pkg'', ''pkg.app'']"
    by (simp add: modules_to_delete_def loaded_world_def startswith_def)
  have w2: "demo_world\<lparr>sys_modules := sys_modules loaded_world,
            sqlmodel_state := sqlmodel_state (clear_sqlmodel_registry demo_world),
            trace := trace demo_world @ [ImportModule ''pkg.app'', ClearSqlmodelRegistry,
                       DelModules [''pkg'', ''pkg.app''], ImportModule ''pkg.app'']\<rparr>
        = loaded_world\<lparr>sqlmodel_state := Installed [] (Some []),
          trace := [ImportModule ''pkg.app'', ClearSqlmodelRegistry,
                    DelModules [''pkg'', ''pkg.app''], ImportModule ''pkg.app'']\<rparr>"
    by (simp add: demo_world_def loaded_world_def clear_sqlmodel_registry_def)
  have s2: "\<lparr>app_instance = Some (FastAPI 1), app_module_name = Some ''pkg.app:service'',
             reload_count = 1\<rparr> = loaded_reloader\<lparr>reload_count := 1\<rparr>"
    by (simp add: loaded_reloader_def)
  from pkg_app_service_scenario [of demo_importer demo_world demo_module
      "sys_modules loaded_world" "FastAPI 1" demo_importer demo_module
      "sys_modules loaded_world" "FastAPI 1", OF h1 h2 h3 h4 h2 h3]
  show ?thesis unfolding w1 s1 dels w2 s2 .
qed

text \<open>
  C9, as amended. On every \<open>load_app\<close> that is not answered from the cache and whose name
  has a separator, the registry sweep runs if and only if \<open>reload\<close> is true or an instance
  is cached, and whenever it runs it is immediately followed by the deletion of the modules of
  the base path, both before the import. The counterexample is a forced reload on a fresh
  reloader: the sweep runs although no previous instance exists.
\<close>
theorem sweep_when_reloading_before_invalidation:
  assumes "cached_app s name reload = None" and "CHR '':'' \<in> set name"
  shows "trace (snd (snd (load_app imp (s, w) name reload)))
       = trace w
         @ (if reload \<or> app_instance s \<noteq> None
            then [ClearSqlmodelRegistry,
                  DelModules (modules_to_delete (base_path_of (fst (split_target name)))
                                (sys_modules w))]
            else [])
         @ [ImportModule (fst (split_target name))]
         @ (if isl (fst (load_app imp (s, w) name reload)) then [LogError] else [])
     \<and> (ClearSqlmodelRegistry
           \<in> set (drop (length (trace w)) (trace (snd (snd (load_app imp (s, w) name reload)))))
         \<longleftrightarrow> reload \<or> app_instance s \<noteq> None)"
proof -
  note tr = load_app_trace [OF assms, of imp w]
  show ?thesis unfolding tr by simp
qed

theorem sweep_when_reloading_before_invalidation_witness:
  "trace (snd (snd (load_app demo_importer (loaded_reloader, loaded_world)
       ''pkg.app:admin'' False)))
     = [ImportModule ''pkg.app'', ClearSqlmodelRegistry, DelModules [''pkg'', ''pkg.app''],
        ImportModule ''pkg.app'']"
proof -
  have h1: "cached_app loaded_reloader ''pkg.app:admin'' False = None"
    by (simp add: cached_app_def loaded_reloader_def)
  have h2: "CHR '':'' \<in> set ''pkg.app:admin''" by simp
  have ok: "\<not> isl (fst (load_app demo_importer (loaded_reloader, loaded_world)
       ''pkg.app:admin'' False))"
    by (simp add: demo_defs)
  have dels: "modules_to_delete (base_path_of ''pkg.app'') (sys_modules loaded_world)
      = [''pkg'', ''pkg.app'']"
    by (simp add: modules_to_delete_def loaded_world_def startswith_def base_path_of_def)
  have inst: "app_instance loaded_reloader \<noteq> None" by (simp add: loaded_reloader_def)
  have tr: "trace loaded_world = [ImportModule ''pkg.app'']" by (simp add: loaded_world_def)
  have mp: "fst (split_target ''pkg.app:admin'') = ''pkg.app''" by (simp add: split_target_def)
  from sweep_when_reloading_before_invalidation [OF h1 h2, of demo_importer loaded_world]
  show ?thesis using ok inst unfolding mp dels tr by simp
qed

theorem sweep_without_previous_handle_counterexample:
  "get_app AppReloader_init = None
   \<and> trace (snd (snd (load_app demo_importer (AppReloader_init, demo_world)
        ''pkg.app:service'' True)))
     = [ClearSqlmodelRegistry, DelModules [], ImportModule ''pkg.app'']"
  by (simp add: demo_defs get_app_def)

text \<open>
  C10. After \<open>clear\<close>, \<open>load_app\<close> of a name with a separator and \<open>reload\<close> false goes
  straight to the import on the untouched world: the only events are the import (and the
  error log when it fails), so neither the registry sweep nor the module deletion runs;
  the reload counter stays what it was before \<open>clear\<close>, and a successful call returns that
  value.
\<close>
theorem load_after_clear_skips_reload_steps:
  assumes "CHR '':'' \<in> set name"
  shows "load_app imp (clear s, w) name False
       = import_and_cache imp (clear s) w name (fst (split_target name)) (snd (split_target name))
     \<and> trace (snd (snd (load_app imp (clear s, w) name False)))
       = trace w @ [ImportModule (fst (split_target name))]
         @ (if isl (fst (load_app imp (clear s, w) name False)) then [LogError] else [])
     \<and> get_reload_count (fst (snd (load_app imp (clear s, w) name False))) = get_reload_count s
     \<and> (\<forall>app g. fst (load_app imp (clear s, w) name False) = Inr (app, g)
           \<longrightarrow> g = get_reload_count s)"
proof -
  have none: "app_instance (clear s) = None" by (simp add: clear_def)
  then have miss: "cached_app (clear s) name False = None" by (simp add: cached_app_def)
  have cnt: "reload_count (clear s) = reload_count s" by (simp add: clear_def)
  let ?r = "load_app imp (clear s, w) name False"
  have eq: "?r = import_and_cache imp (clear s) w name (fst (split_target name))
       (snd (split_target name))"
    by (rule load_app_first [OF miss assms _ none]) simp
  have tr: "trace (snd (snd ?r)) = trace w @ [ImportModule (fst (split_target name))]
         @ (if isl (fst ?r) then [LogError] else [])"
    unfolding load_app_trace [OF miss assms] using none by simp
  have c: "reload_count (fst (snd ?r)) = reload_count s"
    unfolding load_app_count using none cnt by simp
  have ret: "g = reload_count s" if "fst ?r = Inr (app, g)" for app g
    using import_and_cache_Inr [of imp "clear s" w name _ _ app g] that cnt unfolding eq by simp
  from eq tr c ret show ?thesis by (simp add: get_reload_count_def)
qed

theorem load_after_clear_skips_reload_steps_witness:
  "load_app demo_importer (clear (loaded_reloader\<lparr>reload_count := 1\<rparr>), loaded_world)
       ''pkg.app:service'' False
     = (Inr (FastAPI 1, 1), loaded_reloader\<lparr>reload_count := 1\<rparr>,
        loaded_world\<lparr>trace := [ImportModule ''pkg.app'', ImportModule ''pkg.app'']\<rparr>)"
proof -
  have h: "CHR '':'' \<in> set ''pkg.app:service''" by simp
  from load_after_clear_skips_reload_steps [OF h, of demo_importer
      "loaded_reloader\<lparr>reload_count := 1\<rparr>" loaded_world]
  have "load_app demo_importer (clear (loaded_reloader\<lparr>reload_count := 1\<rparr>), loaded_world)
       ''pkg.app:service'' False
     = import_and_cache demo_importer (clear (loaded_reloader\<lparr>reload_count := 1\<rparr>))
         loaded_world ''pkg.app:service'' (fst (split_target ''pkg.app:service''))
         (snd (split_target ''pkg.app:service''))"
    by blast
  then show ?thesis by (simp add: demo_defs clear_def)
qed

text \<open>
  C3, as amended. The reload counter of a fresh reloader is 0. It never decreases over any
  sequence of \<open>load_app\<close>, \<open>get_app\<close>, \<open>get_reload_count\<close> and \<open>clear\<close> calls,
  whatever else happens to the world in between. One \<open>load_app\<close> call adds exactly 1 when
  it is not answered from the cache, its name has a separator, and \<open>reload\<close> is true or an
  instance is cached, whether the import that follows succeeds or fails; in every other case
  (a cache hit, a name without separator, a first load with nothing cached) it adds nothing.
  A successful call returns the counter as it stands after the call. The counterexample is
  a forced reload whose import fails: the counter goes from 0 to 1.
\<close>
theorem reload_count_monotone_and_steps:
  "get_reload_count AppReloader_init = 0
   \<and> get_reload_count (fst sw) \<le> get_reload_count (fst (run ops sw))
   \<and> get_reload_count (fst (snd (load_app imp (s, w) name reload)))
       = get_reload_count s
         + (if cached_app s name reload = None \<and> CHR '':'' \<in> set name
               \<and> (reload \<or> app_instance s \<noteq> None)
            then 1 else 0)
   \<and> (\<forall>app g. fst (load_app imp (s, w) name reload) = Inr (app, g)
         \<longrightarrow> g = get_reload_count (fst (snd (load_app imp (s, w) name reload))))"
proof -
  have ret: "g = reload_count (fst (snd (load_app imp (s, w) name reload)))"
    if "fst (load_app imp (s, w) name reload) = Inr (app, g)" for app g
  proof -
    have r: "load_app imp (s, w) name reload
        = (Inr (app, g), fst (snd (load_app imp (s, w) name reload)),
           snd (snd (load_app imp (s, w) name reload)))"
      using that by (metis prod.collapse)
    from load_app_Inr_state [OF r] show ?thesis by simp
  qed
  show ?thesis
    unfolding get_reload_count_def load_app_count
    using run_count_mono [of sw ops] ret
    by (simp add: AppReloader_init_def load_app_count)
qed

theorem reload_count_monotone_and_steps_witness:
  "get_reload_count
     (fst (run [LoadApp demo_importer ''pkg.app:service'' False, GetApp,
                LoadApp demo_importer ''pkg.app:service'' False, GetReloadCount,
                LoadApp demo_importer ''pkg.app:service'' True, Clear,
                LoadApp demo_importer ''pkg.app:service'' False]
             (AppReloader_init, demo_world))) = 1
   \<and> fst (load_app demo_importer (loaded_reloader, loaded_world) ''pkg.app:service'' True)
       = Inr (FastAPI 1, 1)"
proof -
  have "fst (load_app demo_importer (loaded_reloader, loaded_world) ''pkg.app:service'' True)
       = Inr (FastAPI 1, 1)"
    by (simp add: demo_defs)
  moreover have "get_reload_count
     (fst (run [LoadApp demo_importer ''pkg.app:service'' False, GetApp,
                LoadApp demo_importer ''pkg.app:service'' False, GetReloadCount,
                LoadApp demo_importer ''pkg.app:service'' True, Clear,
                LoadApp demo_importer ''pkg.app:service'' False]
             (AppReloader_init, demo_world))) = 1"
    by (simp add: run_def demo_defs clear_def get_reload_count_def)
  ultimately show ?thesis
    using reload_count_monotone_and_steps [of "(loaded_reloader, loaded_world)" "[]"
        demo_importer loaded_reloader loaded_world "''pkg.app:service''" True]
    by (simp)
qed

theorem failed_reload_increments_count_counterexample:
  "get_reload_count loaded_reloader = 0
   \<and> fst (load_app failing_importer (loaded_reloader, loaded_world) ''pkg.app:service'' True)
       = Inl (ImportError ''pkg.app'')
   \<and> get_reload_count
       (fst (snd (load_app failing_importer (loaded_reloader, loaded_world)
          ''pkg.app:service'' True))) = 1"
  unfolding failed_reload by (simp add: get_reload_count_def loaded_reloader_def)

text \<open>
  C2, as amended. In every state the reloader can reach from a fresh one, \<open>load_app\<close> of a
  name with no separator fails with ValueError carrying that name, whether or not a reload is
  forced, and leaves the reloader as it was: \<open>get_app\<close> and \<open>get_reload_count\<close> return what
  they returned before; the only effect on the world is the logged error. The format check
  is the absence of a separator only. The counterexample runs three names the check lets
  through on a loaded reloader: with a second separator the name is split at the first one and
  the call ends in AttributeError, with an empty attribute segment likewise, with an empty
  module segment the importer is called with the empty path; in all three the reload counter
  has gone from 0 to 1.
\<close>
theorem name_without_separator_is_rejected:
  assumes "CHR '':'' \<notin> set name"
  shows "load_app imp (run ops (AppReloader_init, w0)) name reload
       = (Inl (ValueError name), fst (run ops (AppReloader_init, w0)),
          log_error (snd (run ops (AppReloader_init, w0))))
     \<and> get_app (fst (snd (load_app imp (run ops (AppReloader_init, w0)) name reload)))
       = get_app (fst (run ops (AppReloader_init, w0)))
     \<and> get_reload_count (fst (snd (load_app imp (run ops (AppReloader_init, w0)) name reload)))
       = get_reload_count (fst (run ops (AppReloader_init, w0)))"
proof -
  obtain s w where sw: "run ops (AppReloader_init, w0) = (s, w)"
    by (cases "run ops (AppReloader_init, w0)")
  have "app_module_name s \<noteq> Some name"
    using reachable_name_colon [of ops w0 name] assms sw by auto
  then have miss: "cached_app s name reload = None"
    by (simp add: cached_app_None_iff)
  from load_app_malformed [OF miss assms, of imp w] show ?thesis
    unfolding sw by simp
qed

theorem name_without_separator_is_rejected_witness:
  "load_app demo_importer (run [LoadApp demo_importer ''pkg.app:service'' False]
       (AppReloader_init, demo_world)) ''pkg.app'' True
     = (Inl (ValueError ''pkg.app''), loaded_reloader,
        loaded_world\<lparr>trace := [ImportModule ''pkg.app'', LogError]\<rparr>)"
proof -
  have h: "CHR '':'' \<notin> set ''pkg.app''" by simp
  have r: "run [LoadApp demo_importer ''pkg.app:service'' False] (AppReloader_init, demo_world)
      = (loaded_reloader, loaded_world)"
    by (simp add: run_def first_load)
  from name_without_separator_is_rejected [OF h, of demo_importer
      "[LoadApp demo_importer ''pkg.app:service'' False]" demo_world True]
  show ?thesis unfolding r by (simp add: log_error_def loaded_world_def)
qed

theorem extra_separator_or_empty_segment_counterexample:
  "run [LoadApp demo_importer ''pkg.app:service'' False] (AppReloader_init, demo_world)
     = (loaded_reloader, loaded_world)
   \<and> get_reload_count loaded_reloader = 0
   \<and> fst (load_app demo_importer (loaded_reloader, loaded_world) ''pkg.app:service:x'' False)
       = Inl (AttributeError ''pkg.app'' ''service:x'')
   \<and> get_reload_count (fst (snd (load_app demo_importer (loaded_reloader, loaded_world)
         ''pkg.app:service:x'' False))) = 1
   \<and> fst (load_app demo_importer (loaded_reloader, loaded_world) ''pkg.app:'' False)
       = Inl (AttributeError ''pkg.app'' [])
   \<and> get_reload_count (fst (snd (load_app demo_importer (loaded_reloader, loaded_world)
         ''pkg.app:'' False))) = 1
   \<and> get_reload_count (fst (snd (load_app demo_importer (loaded_reloader, loaded_world)
         '':service'' False))) = 1"
proof -
  have r: "run [LoadApp demo_importer ''pkg.app:service'' False] (AppReloader_init, demo_world)
      = (loaded_reloader, loaded_world)"
    by (simp add: run_def first_load)
  have a: "load_app demo_importer (loaded_reloader, loaded_world) ''pkg.app:service:x'' False
      = (Inl (AttributeError ''pkg.app'' ''service:x''), loaded_reloader\<lparr>reload_count := 1\<rparr>,
         loaded_world\<lparr>sqlmodel_state := Installed [] (Some []),
           trace := [ImportModule ''pkg.app'', ClearSqlmodelRegistry,
                     DelModules [''pkg'', ''pkg.app''], ImportModule ''pkg.app'', LogError]\<rparr>)"
    by (simp add: demo_defs)
  have b: "load_app demo_importer (loaded_reloader, loaded_world) ''pkg.app:'' False
      = (Inl (AttributeError ''pkg.app'' []), loaded_reloader\<lparr>reload_count := 1\<rparr>,
         loaded_world\<lparr>sqlmodel_state := Installed [] (Some []),
           trace := [ImportModule ''pkg.app'', ClearSqlmodelRegistry,
                     DelModules [''pkg'', ''pkg.app''], ImportModule ''pkg.app'', LogError]\<rparr>)"
    by (simp add: demo_defs)
  have c: "load_app demo_importer (loaded_reloader, loaded_world) '':service'' False
      = (Inl (ValueError ''Empty module name''), loaded_reloader\<lparr>reload_count := 1\<rparr>,
         loaded_world\<lparr>sqlmodel_state := Installed [] (Some []),
           trace := [ImportModule ''pkg.app'', ClearSqlmodelRegistry,
                     DelModules [], ImportModule [], LogError]\<rparr>)"
    by (simp add: demo_defs)
  show ?thesis unfolding r a b c
    by (simp add: get_reload_count_def loaded_reloader_def)
qed

text \<open>
  C1, as amended. When a reloader holding an instance runs a reload (the name has a separator,
  and a reload is forced or the name differs from the cached one) and the import, the
  attribute lookup or the type check fails, the reloader afterwards differs from before only
  in its reload counter, which is one higher: \<open>get_app\<close> still returns the previous instance.
  A following \<open>load_app\<close> of the cached name without forcing returns that instance from the
  cache and changes nothing; a following \<open>load_app\<close> of the failed name, when it differs from
  the cached one, calls the importer again. The counterexample is a forced reload of the
  loaded name in a tree where nothing imports: \<open>get_app\<close> afterwards returns the old
  instance, and the next unforced call returns it without any new event in the trace.
\<close>
theorem failed_reload_keeps_previous_instance:
  assumes "app_instance s = Some h" and "app_module_name s = Some cached"
    and "CHR '':'' \<in> set name" and "reload \<or> name \<noteq> cached"
    and "load_app imp (s, w) name reload = (Inl e, s', w')"
  shows "s' = s\<lparr>reload_count := reload_count s + 1\<rparr>
     \<and> get_app s' = Some h
     \<and> get_reload_count s' = get_reload_count s + 1
     \<and> load_app imp2 (s', w') cached False = (Inr (h, get_reload_count s + 1), s', w')
     \<and> (name \<noteq> cached \<longrightarrow>
          import_paths (trace (snd (snd (load_app imp2 (s', w') name False))))
            = import_paths (trace w') @ [fst (split_target name)])"
proof -
  from assms(1,2,4) have miss: "cached_app s name reload = None"
    by (auto simp: cached_app_None_iff)
  from assms(1) have cached: "reload \<or> app_instance s \<noteq> None" by simp
  let ?r = "import_and_cache imp (s\<lparr>reload_count := reload_count s + 1\<rparr>)
           (clear_module_cache (base_path_of (fst (split_target name)))
              (clear_sqlmodel_registry w))
           name (fst (split_target name)) (snd (split_target name))"
  from load_app_reload [OF miss assms(3) cached, of imp w] assms(5)
  have eq: "?r = (Inl e, s', w')" by simp
  then have "fst ?r = Inl e" by simp
  from import_and_cache_Inl [OF this] eq
  have s': "s' = s\<lparr>reload_count := reload_count s + 1\<rparr>" by simp
  have hit: "cached_app s' cached False = Some (h, reload_count s + 1)"
    using assms(1,2) unfolding s' by (simp add: cached_app_def)
  have again: "load_app imp2 (s', w') cached False = (Inr (h, reload_count s + 1), s', w')"
    by (rule load_app_hit [OF hit])
  have fresh: "import_paths (trace (snd (snd (load_app imp2 (s', w') name False))))
            = import_paths (trace w') @ [fst (split_target name)]" if "name \<noteq> cached"
  proof -
    from that assms(2) have m: "cached_app s' name False = None"
      unfolding s' by (simp add: cached_app_None_iff)
    show ?thesis unfolding load_app_trace [OF m assms(3)]
      using assms(1) unfolding s' by (simp add: import_paths_append)
  qed
  from s' again fresh assms(1) show ?thesis
    by (simp add: get_app_def get_reload_count_def)
qed

theorem failed_reload_keeps_previous_instance_witness:
  "get_app (loaded_reloader\<lparr>reload_count := 1\<rparr>) = Some (FastAPI 1)
   \<and> load_app demo_importer
        (fst (snd (load_app failing_importer (loaded_reloader, loaded_world)
                     ''pkg.app:service'' True)),
         snd (snd (load_app failing_importer (loaded_reloader, loaded_world)
                     ''pkg.app:service'' True)))
        ''pkg.app:service'' False
     = (Inr (FastAPI 1, 1), snd (load_app failing_importer (loaded_reloader, loaded_world)
                     ''pkg.app:service'' True))"
proof -
  have h1: "app_instance loaded_reloader = Some (FastAPI 1)"
    and h2: "app_module_name loaded_reloader = Some ''pkg.app:service''"
    by (simp_all add: loaded_reloader_def)
  have h3: "CHR '':'' \<in> set ''pkg.app:service''" by simp
  have h4: "True \<or> ''pkg.app:service'' \<noteq> ''pkg.app:service''" by simp
  from failed_reload_keeps_previous_instance [OF h1 h2 h3 h4 failed_reload, of demo_importer]
  show ?thesis unfolding failed_reload
    by (simp add: get_app_def get_reload_count_def loaded_reloader_def)
qed

theorem stale_instance_after_failed_reload_counterexample:
  "run [LoadApp demo_importer ''pkg.app:service'' False] (AppReloader_init, demo_world)
     = (loaded_reloader, loaded_world)
   \<and> fst (load_app failing_importer (loaded_reloader, loaded_world) ''pkg.app:service'' True)
       = Inl (ImportError ''pkg.app'')
   \<and> get_app (fst (snd (load_app failing_importer (loaded_reloader, loaded_world)
         ''pkg.app:service'' True))) = Some (FastAPI 1)
   \<and> fst (load_app failing_importer
         (snd (load_app failing_importer (loaded_reloader, loaded_world)
                 ''pkg.app:service'' True))
         ''pkg.app:service'' False) = Inr (FastAPI 1, 1)
   \<and> trace (snd (snd (load_app failing_importer
         (snd (load_app failing_importer (loaded_reloader, loaded_world)
                 ''pkg.app:service'' True))
         ''pkg.app:service'' False)))
       = trace (snd (snd (load_app failing_importer (loaded_reloader, loaded_world)
                 ''pkg.app:service'' True)))"
proof -
  have r: "run [LoadApp demo_importer ''pkg.app:service'' False] (AppReloader_init, demo_world)
      = (loaded_reloader, loaded_world)"
    by (simp add: run_def first_load)
  have hit: "cached_app (loaded_reloader\<lparr>reload_count := 1\<rparr>) ''pkg.app:service'' False
      = Some (FastAPI 1, 1)"
    by (simp add: cached_app_def loaded_reloader_def)
  show ?thesis unfolding r failed_reload snd_conv load_app_hit [OF hit]
    by (simp add: get_app_def loaded_reloader_def)
qed

end
